theory Spec2Isabelle
  imports Complex_Main "HOL-Library.Sublist" "HOL-Library.Multiset"
    "HOL-Library.Product_Lexorder"
begin

section \<open>JavaScript values\<close>

text \<open>
  The program is TypeScript (\<^verbatim>\<open>src/database.ts\<close>). Its strings are sequences of
  characters, modelled as lists of character codes (so that the euro sign, code 8364, is
  one element); \<open>str\<close> turns an ASCII literal into such a list.

  Its numbers are IEEE doubles. The model keeps \<open>NaN\<close> apart and represents every
  other number by the rational it denotes: arithmetic is exact, so rounding error,
  overflow to an infinity (and the literal \<^verbatim>\<open>Infinity\<close>) and the sign of zero are
  outside the model. The averages of \<^verbatim>\<open>getStats\<close>, which are quotients and products
  of doubles and depend on their rounding, are not modelled for that reason.
\<close>

type_synonym jsstring = "nat list"

definition str :: "string \<Rightarrow> jsstring" where
  "str s = map of_char s"

datatype number = NaN | Fin rat

text \<open>Truthiness, as tested by \<^verbatim>\<open>if (x)\<close> and \<^verbatim>\<open>!x\<close>.\<close>

fun truthy_number :: "number \<Rightarrow> bool" where
  "truthy_number NaN = False"
| "truthy_number (Fin r) = (r \<noteq> 0)"

fun truthy_string :: "jsstring option \<Rightarrow> bool" where
  "truthy_string None = False"
| "truthy_string (Some s) = (s \<noteq> [])"

fun isNaN :: "number \<Rightarrow> bool" where
  "isNaN NaN = True"
| "isNaN (Fin r) = False"

fun Math_floor :: "number \<Rightarrow> number" where
  "Math_floor NaN = NaN"
| "Math_floor (Fin r) = Fin (of_int \<lfloor>r\<rfloor>)"

fun Math_min :: "number \<Rightarrow> number \<Rightarrow> number" where
  "Math_min (Fin a) (Fin b) = Fin (min a b)"
| "Math_min _ _ = NaN"

fun Math_max :: "number \<Rightarrow> number \<Rightarrow> number" where
  "Math_max (Fin a) (Fin b) = Fin (max a b)"
| "Math_max _ _ = NaN"

fun num_sub :: "number \<Rightarrow> number \<Rightarrow> number" where
  "num_sub (Fin a) (Fin b) = Fin (a - b)"
| "num_sub _ _ = NaN"

fun num_mul :: "number \<Rightarrow> number \<Rightarrow> number" where
  "num_mul (Fin a) (Fin b) = Fin (a * b)"
| "num_mul _ _ = NaN"

fun num_lt :: "number \<Rightarrow> number \<Rightarrow> bool" where
  "num_lt (Fin a) (Fin b) = (a < b)"
| "num_lt _ _ = False"

text \<open>Strict equality \<^verbatim>\<open>===\<close> on numbers: \<open>NaN\<close> equals nothing.\<close>

fun num_eq :: "number \<Rightarrow> number \<Rightarrow> bool" where
  "num_eq (Fin a) (Fin b) = (a = b)"
| "num_eq _ _ = False"

text \<open>\<^verbatim>\<open>v || d\<close> on a string that may be undefined.\<close>

definition string_or :: "jsstring option \<Rightarrow> jsstring \<Rightarrow> jsstring" where
  "string_or v d = (if truthy_string v then the v else d)"

subsection \<open>Dates\<close>

text \<open>
  A valid \<^verbatim>\<open>Date\<close> is represented by the local calendar fields the program reads
  (\<^verbatim>\<open>getFullYear\<close>, \<^verbatim>\<open>getMonth\<close> counted from 0, \<^verbatim>\<open>getDate\<close>); the
  time of day plays no role. \<^verbatim>\<open>new Date(text)\<close> yields either a valid date or the
  Invalid Date, whose getters all return \<open>NaN\<close>; it never throws.
\<close>

record Date =
  fullYear :: int
  month :: int
  dayOfMonth :: int

datatype JSDate = InvalidDate | ValidDate Date

fun getFullYear :: "JSDate \<Rightarrow> number" where
  "getFullYear InvalidDate = NaN"
| "getFullYear (ValidDate d) = Fin (of_int (fullYear d))"

fun getMonth :: "JSDate \<Rightarrow> number" where
  "getMonth InvalidDate = NaN"
| "getMonth (ValidDate d) = Fin (of_int (month d))"

fun getDate :: "JSDate \<Rightarrow> number" where
  "getDate InvalidDate = NaN"
| "getDate (ValidDate d) = Fin (of_int (dayOfMonth d))"

text \<open>
  What the program takes from its runtime: the engine's date parser behind
  \<^verbatim>\<open>new Date(text)\<close> (its grammar beyond the ISO format is implementation-defined),
  the clock behind \<^verbatim>\<open>new Date()\<close>, and the value of \<^verbatim>\<open>Math.random()\<close>, a
  number in \<open>[0, 1)\<close>.
\<close>

record Runtime =
  Date_new :: "jsstring \<Rightarrow> JSDate"
  Date_now :: Date
  Math_random :: rat

subsection \<open>String methods\<close>

definition isWhiteSpace :: "nat \<Rightarrow> bool" where
  "isWhiteSpace c \<longleftrightarrow>
     c \<in> {9, 10, 11, 12, 13, 32, 160, 5760, 8232, 8233, 8239, 8287, 12288, 65279}
     \<or> (8192 \<le> c \<and> c \<le> 8202)"

definition trimStart :: "jsstring \<Rightarrow> jsstring" where
  "trimStart s = dropWhile isWhiteSpace s"

definition trim :: "jsstring \<Rightarrow> jsstring" where
  "trim s = rev (dropWhile isWhiteSpace (rev (dropWhile isWhiteSpace s)))"

text \<open>\<^verbatim>\<open>s.replace(pat, rep)\<close> with a string pattern replaces the first occurrence only.\<close>

fun String_replace :: "jsstring \<Rightarrow> jsstring \<Rightarrow> jsstring \<Rightarrow> jsstring" where
  "String_replace pat rep [] = (if pat = [] then rep else [])"
| "String_replace pat rep (c # cs) =
     (if prefix pat (c # cs) then rep @ drop (length pat) (c # cs)
      else c # String_replace pat rep cs)"

fun String_includes :: "jsstring \<Rightarrow> jsstring \<Rightarrow> bool" where
  "String_includes pat [] = (pat = [])"
| "String_includes pat (c # cs) = (prefix pat (c # cs) \<or> String_includes pat cs)"

subsection \<open>\<^verbatim>\<open>parseFloat\<close> and \<^verbatim>\<open>parseInt\<close>\<close>

definition isDigit :: "nat \<Rightarrow> bool" where
  "isDigit c \<longleftrightarrow> 48 \<le> c \<and> c \<le> 57"

text \<open>The value of a digit string in the given radix, most significant digit first.\<close>

definition digitsValue :: "nat \<Rightarrow> nat list \<Rightarrow> nat" where
  "digitsValue radix ds = foldl (\<lambda>acc d. acc * radix + d) 0 ds"

definition decimalValue :: "jsstring \<Rightarrow> nat" where
  "decimalValue ds = digitsValue 10 (map (\<lambda>c. c - 48) ds)"

text \<open>An optional sign: the factor it stands for and the rest of the string.\<close>

fun takeSign :: "jsstring \<Rightarrow> int \<times> jsstring" where
  "takeSign [] = (1, [])"
| "takeSign (c # cs) =
     (if c = 45 then (- 1, cs) else if c = 43 then (1, cs) else (1, c # cs))"

definition pow10 :: "int \<Rightarrow> rat" where
  "pow10 e = (if 0 \<le> e then 10 ^ nat e else 1 / 10 ^ nat (- e))"

text \<open>
  The exponent part that may follow the mantissa: \<^verbatim>\<open>e\<close> or \<^verbatim>\<open>E\<close>, an optional
  sign and at least one digit; anything else is not part of the number.
\<close>

fun exponentPart :: "jsstring \<Rightarrow> int" where
  "exponentPart [] = 0"
| "exponentPart (c # cs) =
     (if c = 101 \<or> c = 69 then
        (case takeSign cs of (sg, rest) \<Rightarrow>
           (let ds = takeWhile isDigit rest
            in if ds = [] then 0 else sg * int (decimalValue ds)))
      else 0)"

text \<open>
  \<^verbatim>\<open>parseFloat\<close>: leading white space is skipped, then the longest prefix that is a
  decimal literal (sign, digits, fraction, exponent) is read; with no such prefix the
  result is \<open>NaN\<close>. Nothing is ever thrown.
\<close>

definition parseFloat :: "jsstring \<Rightarrow> number" where
  "parseFloat s =
     (case takeSign (trimStart s) of (sg, t) \<Rightarrow>
        (let ip = takeWhile isDigit t;
             r1 = dropWhile isDigit t;
             hasDot = (r1 \<noteq> [] \<and> hd r1 = 46);
             fp = (if hasDot then takeWhile isDigit (tl r1) else []);
             r2 = (if hasDot then dropWhile isDigit (tl r1) else r1)
         in if ip = [] \<and> fp = [] then NaN
            else Fin (of_int sg
                      * (of_nat (decimalValue ip)
                         + of_nat (decimalValue fp) / 10 ^ length fp)
                      * pow10 (exponentPart r2))))"

text \<open>
  \<^verbatim>\<open>parseInt\<close> without a radix: leading white space, an optional sign, an optional
  \<^verbatim>\<open>0x\<close> prefix selecting radix 16, then the longest run of digits of the radix;
  \<open>NaN\<close> when that run is empty.
\<close>

definition hexDigit :: "nat \<Rightarrow> nat option" where
  "hexDigit c =
     (if 48 \<le> c \<and> c \<le> 57 then Some (c - 48)
      else if 97 \<le> c \<and> c \<le> 102 then Some (c - 87)
      else if 65 \<le> c \<and> c \<le> 70 then Some (c - 55)
      else None)"

definition parseInt :: "jsstring \<Rightarrow> number" where
  "parseInt s =
     (case takeSign (trimStart s) of (sg, t) \<Rightarrow>
        (if prefix [48, 120] t \<or> prefix [48, 88] t then
           (let ds = takeWhile (\<lambda>c. hexDigit c \<noteq> None) (drop 2 t)
            in if ds = [] then NaN
               else Fin (of_int (sg * int (digitsValue 16 (map (\<lambda>c. the (hexDigit c)) ds)))))
         else
           (let ds = takeWhile isDigit t
            in if ds = [] then NaN
               else Fin (of_int (sg * int (decimalValue ds))))))"

section \<open>Data model (\<^verbatim>\<open>types.ts\<close>)\<close>

datatype Position = GK | CB | LB | RB | LWB | RWB | CDM | CM | CAM | LM | RM | LW | RW | CF | ST

record PlayerAttributes =
  pace :: number
  shooting :: number
  passing :: number
  dribbling :: number
  defending :: number
  physical :: number

text \<open>
  The interface \<^verbatim>\<open>Player\<close>. Its field \<^verbatim>\<open>id\<close> is called \<open>ident\<close> here.
  An optional field is \<open>None\<close> where it is \<^verbatim>\<open>undefined\<close> or \<^verbatim>\<open>null\<close>.
  The two dates are valid dates: the normalizer builds \<^verbatim>\<open>contractExpiry\<close> with
  \<^verbatim>\<open>parseDate\<close>, which lets no Invalid Date through, and \<^verbatim>\<open>lastUpdated\<close> from the
  clock.
\<close>

record Player =
  ident :: number
  name :: jsstring
  age :: number
  nationality :: jsstring
  club :: "jsstring option"
  league :: "jsstring option"
  position :: Position
  preferredFoot :: jsstring
  overallRating :: number
  potential :: number
  marketValue :: number
  wage :: "number option"
  releaseClause :: "number option"
  attributes :: PlayerAttributes
  contractExpiry :: "Date option"
  lastUpdated :: Date

section \<open>The field normalizer (class CSVDataLoader)\<close>

text \<open>
  A field of a raw row is \<open>None\<close> where the property is \<^verbatim>\<open>undefined\<close>, and a
  string otherwise.
\<close>

definition safeInt :: "jsstring option \<Rightarrow> number \<Rightarrow> number" where
  "safeInt v defaultValue =
     (if \<not> truthy_string v \<or> v = Some [] \<or> v = Some [32] then defaultValue
      else (let parsed = parseInt (trim (the v))
            in if isNaN parsed then defaultValue else parsed))"

text \<open>
  \<^verbatim>\<open>parseCurrencyValue\<close>. The body of its \<^verbatim>\<open>try\<close> block calls only
  \<^verbatim>\<open>includes\<close>, \<^verbatim>\<open>replace\<close>, \<^verbatim>\<open>parseFloat\<close> and \<^verbatim>\<open>Math.floor\<close>, none of which
  throws, so the \<^verbatim>\<open>catch\<close> branch (returning 0) is never taken and has no
  counterpart here.
\<close>

definition parseCurrencyValue :: "jsstring option \<Rightarrow> number" where
  "parseCurrencyValue v =
     (if \<not> truthy_string v \<or> v = Some [] then Fin 0
      else (let clean = trim (String_replace [44] [] (String_replace [8364] [] (the v)))
            in if clean = [] \<or> clean = [45] then Fin 0
               else if String_includes [77] clean then
                 Math_floor (num_mul (parseFloat (String_replace [77] [] clean)) (Fin 1000000))
               else if String_includes [75] clean then
                 Math_floor (num_mul (parseFloat (String_replace [75] [] clean)) (Fin 1000))
               else Math_floor (parseFloat clean)))"

text \<open>
  \<^verbatim>\<open>parseDate\<close>: the \<^verbatim>\<open>isNaN(date.getTime())\<close> test rejects the Invalid Date.
\<close>

definition parseDate :: "Runtime \<Rightarrow> jsstring option \<Rightarrow> Date option" where
  "parseDate rt dateStr =
     (if \<not> truthy_string dateStr \<or> dateStr = Some [] \<or> dateStr = Some (str ''nan'')
         \<or> dateStr = Some (str ''NaN'') then None
      else (case Date_new rt (the dateStr) of
              InvalidDate \<Rightarrow> None
            | ValidDate d \<Rightarrow> Some d))"

text \<open>
  \<^verbatim>\<open>calculateAge\<close>. Neither \<^verbatim>\<open>new Date(dobStr)\<close> nor a getter throws, so the
  \<^verbatim>\<open>catch\<close> branch (returning 25) is never taken and has no counterpart here.
\<close>

definition calculateAge :: "Runtime \<Rightarrow> jsstring option \<Rightarrow> number" where
  "calculateAge rt dobStr =
     (if \<not> truthy_string dobStr then Fin 25
      else (let dob = Date_new rt (the dobStr);
                today = ValidDate (Date_now rt);
                age = num_sub (num_sub (getFullYear today) (getFullYear dob))
                        (if num_lt (getMonth today) (getMonth dob)
                            \<or> (num_eq (getMonth today) (getMonth dob)
                                \<and> num_lt (getDate today) (getDate dob))
                         then Fin 1 else Fin 0)
            in Math_max (Fin 16) (Math_min (Fin 45) age)))"

definition positionMap :: "(jsstring \<times> Position) list" where
  "positionMap =
     [(str ''GK'', GK), (str ''CB'', CB), (str ''LB'', LB), (str ''RB'', RB),
      (str ''LWB'', LWB), (str ''RWB'', RWB), (str ''CDM'', CDM), (str ''CM'', CM),
      (str ''CAM'', CAM), (str ''LM'', LM), (str ''RM'', RM), (str ''LW'', LW),
      (str ''RW'', RW), (str ''CF'', CF), (str ''ST'', ST)]"

text \<open>
  \<^verbatim>\<open>parsePosition\<close>: the first entry of the comma-separated list, trimmed, looked up
  in the table of the fifteen codes. (Names that every JavaScript object inherits, such as
  \<^verbatim>\<open>toString\<close>, are not looked up; the position plays no part in the theorems below.)
\<close>

definition parsePosition :: "jsstring option \<Rightarrow> Position" where
  "parsePosition positionsStr =
     (if \<not> truthy_string positionsStr then CM
      else (let primaryPos = trim (takeWhile (\<lambda>c. c \<noteq> 44) (the positionsStr))
            in case map_of positionMap primaryPos of Some p \<Rightarrow> p | None \<Rightarrow> CM))"

text \<open>
  A raw row is the object \<^verbatim>\<open>loadPlayersFromCSV\<close> builds from the header line: a map
  from column names to field strings; a column the file lacks is \<^verbatim>\<open>undefined\<close>.

  \<^verbatim>\<open>parsePlayerFromRow\<close> returns \<^verbatim>\<open>Player | null\<close>, \<^verbatim>\<open>null\<close> from its
  \<^verbatim>\<open>catch\<close>. On such a row nothing in its \<^verbatim>\<open>try\<close> block throws, so it always
  returns a record. The clock is read twice during a call, for the age and for
  \<^verbatim>\<open>lastUpdated\<close>; both readings are \<open>Date_now\<close>. The fallback identifier
  \<^verbatim>\<open>Math.floor(Math.random() * 1000000)\<close> is computed whether it is used or not.
\<close>

type_synonym CsvRow = "string \<rightharpoonup> jsstring"

definition parsePlayerFromRow :: "Runtime \<Rightarrow> CsvRow \<Rightarrow> Player option" where
  "parsePlayerFromRow rt row =
     (let attributes = \<lparr>pace = Fin 0, shooting = Fin 0, passing = Fin 0,
                         dribbling = Fin 0, defending = Fin 0, physical = Fin 0\<rparr>
      in Some \<lparr>
        ident = safeInt (row ''player_id'')
                  (Math_floor (num_mul (Fin (Math_random rt)) (Fin 1000000))),
        name = string_or (row ''name'') (str ''Unknown Player''),
        age = calculateAge rt (row ''dob''),
        nationality = string_or (row ''country_name'') (str ''Unknown''),
        club = (if truthy_string (row ''club_name'') then row ''club_name'' else None),
        league = (if truthy_string (row ''club_league_name'')
                  then row ''club_league_name'' else None),
        position = parsePosition (row ''positions''),
        preferredFoot = string_or (row ''preferred_foot'') (str ''Right''),
        overallRating = Math_min (Fin 99) (Math_max (Fin 40)
                          (safeInt (row ''overall_rating'') (Fin 75))),
        potential = Math_min (Fin 99) (Math_max (Fin 40)
                      (safeInt (row ''potential'') (Fin 75))),
        marketValue = parseCurrencyValue (row ''value''),
        wage = Some (parseCurrencyValue (row ''wage'')),
        releaseClause = Some (parseCurrencyValue (row ''release_clause'')),
        attributes = attributes,
        contractExpiry = parseDate rt (row ''club_contract_valid_until''),
        lastUpdated = Date_now rt\<rparr>)"

section \<open>The record store (class PlayerDatabase)\<close>

text \<open>
  The table \<^verbatim>\<open>players\<close> created by \<^verbatim>\<open>initializeDatabase\<close>. A row carries one
  value per column. The columns declared \<^verbatim>\<open>NOT NULL\<close> hold a value, the others may
  hold \<open>NULL\<close> (\<open>None\<close>); \<^verbatim>\<open>nationality\<close> and \<^verbatim>\<open>preferred_foot\<close> are
  declared nullable, but the only writer, \<^verbatim>\<open>addPlayer\<close>, always binds a string to them.
  A numeric column holds the number that was bound, integral or not (SQLite's
  \<^verbatim>\<open>INTEGER\<close> affinity keeps a non-integral number as it is). The \<^verbatim>\<open>attributes\<close>
  column holds the JSON text of the six sub-ratings and the two date columns hold ISO
  texts; the model keeps the values these texts encode.

  \<^verbatim>\<open>id INTEGER PRIMARY KEY\<close> makes \<^verbatim>\<open>id\<close> the row identifier of the table: the
  table is stored, and scanned, in ascending order of \<^verbatim>\<open>id\<close>.
\<close>

record PlayerRow =
  row_id :: int
  row_name :: jsstring
  row_age :: rat
  row_nationality :: jsstring
  row_club :: "jsstring option"
  row_league :: "jsstring option"
  row_position :: Position
  row_preferred_foot :: jsstring
  row_overall_rating :: rat
  row_potential :: rat
  row_market_value :: rat
  row_wage :: "rat option"
  row_release_clause :: "rat option"
  row_contract_expiry :: "Date option"
  row_attributes :: PlayerAttributes
  row_last_updated :: Date

type_synonym players_table = "PlayerRow list"

subsection \<open>\<^verbatim>\<open>addPlayer\<close>\<close>

text \<open>
  Binding a number to a statement parameter: the driver binds \<open>NaN\<close> as \<open>NULL\<close>.
\<close>

fun bind_number :: "number \<Rightarrow> rat option" where
  "bind_number NaN = None"
| "bind_number (Fin r) = Some r"

fun bind_optional :: "number option \<Rightarrow> rat option" where
  "bind_optional None = None"
| "bind_optional (Some n) = bind_number n"

text \<open>
  The row identifier of the inserted row. It is a signed 64-bit integer: an \<^verbatim>\<open>id\<close>
  that is an integer strictly between \<open>- 2\<^sup>6\<^sup>3\<close> and \<open>2\<^sup>6\<^sup>3\<close> is used as it is, any
  other number is refused (datatype mismatch). A \<open>NULL\<close> makes SQLite choose one more than the largest
  identifier in the table (1 in an empty table). (When that largest identifier is already
  the largest 64-bit integer, SQLite tries unused identifiers at random and fails when it
  finds none; of the two outcomes the model has the failure.)
\<close>

definition assign_rowid :: "number \<Rightarrow> players_table \<Rightarrow> int option" where
  "assign_rowid n db =
     (case n of
        NaN \<Rightarrow>
          (if db = [] then Some 1
           else if row_id (last db) < 2 ^ 63 - 1 then Some (row_id (last db) + 1)
           else None)
      | Fin r \<Rightarrow>
          (if r = of_int \<lfloor>r\<rfloor> \<and> - (2 ^ 63) < \<lfloor>r\<rfloor> \<and> \<lfloor>r\<rfloor> < 2 ^ 63 then Some \<lfloor>r\<rfloor>
           else None))"

text \<open>
  The values of the sixteen parameters as a row, or \<open>None\<close> when a \<^verbatim>\<open>NOT NULL\<close>
  column would receive \<open>NULL\<close> (the statement then fails and changes nothing).
\<close>

definition bind_row :: "Player \<Rightarrow> int \<Rightarrow> PlayerRow option" where
  "bind_row player k =
     (case (bind_number (age player), bind_number (overallRating player),
            bind_number (potential player), bind_number (marketValue player)) of
        (Some a, Some ov, Some po, Some mv) \<Rightarrow>
          Some \<lparr>row_id = k, row_name = name player, row_age = a,
                row_nationality = nationality player, row_club = club player,
                row_league = league player, row_position = position player,
                row_preferred_foot = preferredFoot player, row_overall_rating = ov,
                row_potential = po, row_market_value = mv,
                row_wage = bind_optional (wage player),
                row_release_clause = bind_optional (releaseClause player),
                row_contract_expiry = contractExpiry player,
                row_attributes = attributes player,
                row_last_updated = lastUpdated player\<rparr>
      | _ \<Rightarrow> None)"

text \<open>\<^verbatim>\<open>INSERT OR REPLACE\<close> of one row into the table, keyed by \<^verbatim>\<open>id\<close>.\<close>

fun insert_or_replace :: "PlayerRow \<Rightarrow> players_table \<Rightarrow> players_table" where
  "insert_or_replace r [] = [r]"
| "insert_or_replace r (x # xs) =
     (if row_id r < row_id x then r # x # xs
      else if row_id r = row_id x then r # xs
      else x # insert_or_replace r xs)"

text \<open>
  \<^verbatim>\<open>addPlayer\<close> resolves to \<^verbatim>\<open>!err\<close>: the result pairs that flag with the table
  after the statement.
\<close>

definition addPlayer :: "Player \<Rightarrow> players_table \<Rightarrow> bool \<times> players_table" where
  "addPlayer player db =
     (case assign_rowid (ident player) db of
        None \<Rightarrow> (False, db)
      | Some k \<Rightarrow>
          (case bind_row player k of
             None \<Rightarrow> (False, db)
           | Some r \<Rightarrow> (True, insert_or_replace r db)))"

subsection \<open>Loading a dataset\<close>

text \<open>
  \<^verbatim>\<open>loadPlayersFromCSV\<close>, from the raw rows that it builds out of the lines of the
  file (the same rows whenever the same file is read): every row is normalized, and the
  records that are not \<^verbatim>\<open>null\<close> are collected in order. Each call of
  \<^verbatim>\<open>parsePlayerFromRow\<close> reads the clock and draws a random number of its own, so
  the runtime is given per row, by the position of the row.
\<close>

definition loadPlayersFromCSV :: "(nat \<Rightarrow> Runtime) \<Rightarrow> CsvRow list \<Rightarrow> Player list" where
  "loadPlayersFromCSV rt rows =
     List.map_filter (\<lambda>(i, row). parsePlayerFromRow (rt i) row) (enumerate 0 rows)"

text \<open>
  The loop \<^verbatim>\<open>for (const player of csvPlayers) await db.addPlayer(player)\<close>: the
  records are upserted one after the other, and a failed upsert is passed over.
\<close>

definition addPlayers :: "Player list \<Rightarrow> players_table \<Rightarrow> players_table" where
  "addPlayers players db = foldl (\<lambda>d player. snd (addPlayer player d)) db players"

text \<open>
  A load, \<^verbatim>\<open>handleUpdate\<close> in \<^verbatim>\<open>App.tsx\<close>: the file is read and normalized
  anew, then its records are upserted.
\<close>

definition handleUpdate :: "(nat \<Rightarrow> Runtime) \<Rightarrow> CsvRow list \<Rightarrow> players_table \<Rightarrow> players_table" where
  "handleUpdate rt rows db = addPlayers (loadPlayersFromCSV rt rows) db"

subsection \<open>\<^verbatim>\<open>searchPlayers\<close>\<close>

record SearchCriteria =
  position :: "Position option"
  minOverall :: "number option"
  maxAge :: "number option"
  maxPrice :: "number option"
  minPotential :: "number option"
  nationality :: "jsstring option"
  league :: "jsstring option"
  club :: "jsstring option"

text \<open>
  The conjuncts that \<^verbatim>\<open>searchPlayers\<close> appends to \<^verbatim>\<open>WHERE 1=1\<close>, each with its
  parameter.
\<close>

datatype Conjunct =
    PositionEq Position
  | OverallRatingGe rat
  | AgeLe rat
  | MarketValueLe rat
  | PotentialGe rat
  | NationalityLike jsstring
  | LeagueLike jsstring
  | ClubLike jsstring

text \<open>
  SQLite's \<^verbatim>\<open>LIKE\<close>: in the pattern \<^verbatim>\<open>%\<close> (code 37) stands for any run of
  characters and \<^verbatim>\<open>_\<close> (code 95) for any one character; any other character
  matches itself, upper and lower case of the 26 ASCII letters being the same.
\<close>

definition sqlite3Tolower :: "nat \<Rightarrow> nat" where
  "sqlite3Tolower c = (if 65 \<le> c \<and> c \<le> 90 then c + 32 else c)"

fun like :: "jsstring \<Rightarrow> jsstring \<Rightarrow> bool" where
  "like [] t = (t = [])"
| "like (p # ps) [] = (p = 37 \<and> like ps [])"
| "like (p # ps) (c # cs) =
     (if p = 37 then like ps (c # cs) \<or> like (p # ps) cs
      else (p = 95 \<or> sqlite3Tolower p = sqlite3Tolower c) \<and> like ps cs)"

text \<open>A comparison with \<open>NULL\<close> is not true, so a row whose field is \<open>NULL\<close> fails it.\<close>

fun holds :: "Conjunct \<Rightarrow> PlayerRow \<Rightarrow> bool" where
  "holds (PositionEq p) r = (row_position r = p)"
| "holds (OverallRatingGe n) r = (row_overall_rating r \<ge> n)"
| "holds (AgeLe n) r = (row_age r \<le> n)"
| "holds (MarketValueLe n) r = (row_market_value r \<le> n)"
| "holds (PotentialGe n) r = (row_potential r \<ge> n)"
| "holds (NationalityLike pat) r = like pat (row_nationality r)"
| "holds (LeagueLike pat) r =
     (case row_league r of None \<Rightarrow> False | Some t \<Rightarrow> like pat t)"
| "holds (ClubLike pat) r =
     (case row_club r of None \<Rightarrow> False | Some t \<Rightarrow> like pat t)"

text \<open>The guards \<^verbatim>\<open>if (criteria.x)\<close>: a criterion is used when it is truthy.\<close>

fun number_param :: "number option \<Rightarrow> (rat \<Rightarrow> Conjunct) \<Rightarrow> Conjunct list" where
  "number_param None mk = []"
| "number_param (Some n) mk =
     (case n of NaN \<Rightarrow> [] | Fin r \<Rightarrow> (if truthy_number n then [mk r] else []))"

definition string_param :: "jsstring option \<Rightarrow> (jsstring \<Rightarrow> Conjunct) \<Rightarrow> Conjunct list" where
  "string_param v mk = (if truthy_string v then [mk ([37] @ the v @ [37])] else [])"

definition where_clause :: "SearchCriteria \<Rightarrow> Conjunct list" where
  "where_clause criteria =
     (case position criteria of None \<Rightarrow> [] | Some p \<Rightarrow> [PositionEq p])
     @ number_param (minOverall criteria) OverallRatingGe
     @ number_param (maxAge criteria) AgeLe
     @ number_param (maxPrice criteria) MarketValueLe
     @ number_param (minPotential criteria) PotentialGe
     @ string_param (nationality criteria) NationalityLike
     @ string_param (league criteria) LeagueLike
     @ string_param (club criteria) ClubLike"

text \<open>
  \<^verbatim>\<open>ORDER BY overall_rating DESC, market_value DESC\<close>. SQL leaves the order of rows
  with equal keys open; the model keeps them in the order of the table scan.
\<close>

definition order_by :: "PlayerRow list \<Rightarrow> PlayerRow list" where
  "order_by rows = sort_key (\<lambda>r. (- row_overall_rating r, - row_market_value r)) rows"

text \<open>\<^verbatim>\<open>LIMIT n\<close>: a negative \<open>n\<close> means no limit.\<close>

definition sql_limit :: "int \<Rightarrow> PlayerRow list \<Rightarrow> PlayerRow list" where
  "sql_limit n rows = (if n < 0 then rows else take (nat n) rows)"

definition rowToPlayer :: "PlayerRow \<Rightarrow> Player" where
  "rowToPlayer row =
     \<lparr>ident = Fin (of_int (row_id row)), name = row_name row, age = Fin (row_age row),
      nationality = row_nationality row, club = row_club row, league = row_league row,
      position = row_position row, preferredFoot = row_preferred_foot row,
      overallRating = Fin (row_overall_rating row), potential = Fin (row_potential row),
      marketValue = Fin (row_market_value row), wage = map_option Fin (row_wage row),
      releaseClause = map_option Fin (row_release_clause row),
      attributes = row_attributes row, contractExpiry = row_contract_expiry row,
      lastUpdated = row_last_updated row\<rparr>"

text \<open>
  \<^verbatim>\<open>searchPlayers\<close>, with the cap an integer (every caller passes 50 or 30). The query
  text is then well-formed whatever the criteria, so the error branch of the callback is
  not reached.
\<close>

definition select_rows :: "SearchCriteria \<Rightarrow> players_table \<Rightarrow> PlayerRow list" where
  "select_rows criteria db =
     order_by (filter (\<lambda>r. list_all (\<lambda>c. holds c r) (where_clause criteria)) db)"

definition searchPlayers :: "SearchCriteria \<Rightarrow> int \<Rightarrow> players_table \<Rightarrow> Player list" where
  "searchPlayers criteria limit db =
     map rowToPlayer (sql_limit limit (select_rows criteria db))"

section \<open>Notions used in the statements\<close>



text \<open>
  Containment of one string in another: as it is (\<open>sublist\<close>, case-sensitive), and
  with the ASCII letters of both strings folded to lower case. An absent field contains
  nothing.
\<close>

definition contains_ci :: "jsstring \<Rightarrow> jsstring \<Rightarrow> bool" where
  "contains_ci s t \<longleftrightarrow> sublist (map sqlite3Tolower s) (map sqlite3Tolower t)"

definition field_contains_ci :: "jsstring \<Rightarrow> jsstring option \<Rightarrow> bool" where
  "field_contains_ci s field = (case field of None \<Rightarrow> False | Some t \<Rightarrow> contains_ci s t)"



text \<open>A string without the two wildcard characters of \<^verbatim>\<open>LIKE\<close>.\<close>

definition wildcard_free :: "jsstring \<Rightarrow> bool" where
  "wildcard_free s \<longleftrightarrow> 37 \<notin> set s \<and> 95 \<notin> set s"





section \<open>Sample data\<close>

text \<open>
  A runtime whose date parser knows one date of birth and rejects every other text, read
  on 1 July 2025 (months count from 0).
\<close>

definition sample_runtime :: Runtime where
  "sample_runtime =
     \<lparr>Date_new = (\<lambda>s. if s = str ''2000-06-15''
                       then ValidDate \<lparr>fullYear = 2000, month = 5, dayOfMonth = 15\<rparr>
                       else InvalidDate),
      Date_now = \<lparr>fullYear = 2025, month = 6, dayOfMonth = 1\<rparr>,
      Math_random = 1 / 4\<rparr>"

definition no_attributes :: PlayerAttributes where
  "no_attributes = \<lparr>pace = Fin 0, shooting = Fin 0, passing = Fin 0,
                     dribbling = Fin 0, defending = Fin 0, physical = Fin 0\<rparr>"

text \<open>The records R1 (rating 90, age 20) and R2 (rating 80, age 30) of the specification.\<close>

definition R1 :: PlayerRow where
  "R1 = \<lparr>row_id = 1, row_name = str ''Pedri'', row_age = 20, row_nationality = str ''Spain'',
         row_club = Some (str ''FC Barcelona''), row_league = Some (str ''La Liga''),
         row_position = CM, row_preferred_foot = str ''Right'', row_overall_rating = 90,
         row_potential = 93, row_market_value = 100000000, row_wage = Some 200000,
         row_release_clause = None, row_contract_expiry = None,
         row_attributes = no_attributes,
         row_last_updated = \<lparr>fullYear = 2025, month = 6, dayOfMonth = 1\<rparr>\<rparr>"

definition R2 :: PlayerRow where
  "R2 = R1\<lparr>row_id := 2, row_name := str ''Giroud'', row_age := 30,
           row_nationality := str ''France'', row_club := None, row_league := None,
           row_position := ST, row_overall_rating := 80, row_potential := 80,
           row_market_value := 5000000\<rparr>"

text \<open>A third record, stored last and rated highest.\<close>

definition R3 :: PlayerRow where
  "R3 = R2\<lparr>row_id := 3, row_name := str ''Mbappe'', row_age := 26,
           row_overall_rating := 95, row_potential := 95, row_market_value := 180000000\<rparr>"

definition no_criteria :: SearchCriteria where
  "no_criteria = \<lparr>position = None, minOverall = None, maxAge = None, maxPrice = None,
                   minPotential = None, nationality = None, league = None, club = None\<rparr>"

text \<open>
  Three raw rows: one with an identifier and the known date of birth, one without an
  identifier, and one with an identifier and a date of birth that the parser rejects.
\<close>

definition row_with_id :: CsvRow where
  "row_with_id =
     [''player_id'' \<mapsto> str ''7'', ''name'' \<mapsto> str ''Pedri'', ''dob'' \<mapsto> str ''2000-06-15'',
      ''overall_rating'' \<mapsto> str ''90'', ''value'' \<mapsto> 8364 # str ''100.0M'']"

definition row_without_id :: CsvRow where
  "row_without_id = [''name'' \<mapsto> str ''Pedri'', ''overall_rating'' \<mapsto> str ''90'']"

definition row_unknown_dob :: CsvRow where
  "row_unknown_dob = [''player_id'' \<mapsto> str ''9'', ''dob'' \<mapsto> str ''unknown'']"

section \<open>Currency normalization\<close>

lemma str_simps:
  "str [] = []"
  "str (c # cs) = of_char c # str cs"
  by (simp_all add: str_def)

lemmas currency_defs =
  parseCurrencyValue_def str_simps trim_def isWhiteSpace_def parseFloat_def trimStart_def
  isDigit_def decimalValue_def digitsValue_def pow10_def

text \<open>
  The examples of the specification: \<^verbatim>\<open>160.0M\<close> behind a euro sign, \<^verbatim>\<open>500K\<close>, a
  bare integer, the empty string, a lone dash and an absent field.
\<close>

lemma parseCurrencyValue_examples:
  "parseCurrencyValue (Some (8364 # str ''160.0M'')) = Fin 160000000"
  "parseCurrencyValue (Some (str ''500K'')) = Fin 500000"
  "parseCurrencyValue (Some (str ''25000000'')) = Fin 25000000"
  "parseCurrencyValue (Some (str '''')) = Fin 0"
  "parseCurrencyValue (Some (str ''-'')) = Fin 0"
  "parseCurrencyValue None = Fin 0"
  by (simp_all add: currency_defs)

text \<open>
  Only the first comma is removed (\<^verbatim>\<open>replace\<close> with a string pattern), so a value
  with two thousands separators is cut at the second.
\<close>

lemma parseCurrencyValue_two_separators:
  "parseCurrencyValue (Some (str ''1,234,567'')) = Fin 1234"
  by (simp add: currency_defs)

text \<open>
  C1 (the code at an unparsable input). The claim has every unparsable currency string
  normalise to 0. For the text \<^verbatim>\<open>N/A\<close> the function returns \<open>NaN\<close>:
  \<^verbatim>\<open>parseFloat\<close> yields \<open>NaN\<close> instead of throwing, so the \<^verbatim>\<open>catch\<close> that
  would return 0 is not reached.
\<close>

theorem parseCurrencyValue_unparsable:
  "parseCurrencyValue (Some (str ''N/A'')) = NaN"
  by (simp add: currency_defs)

text \<open>In particular the result is not the 0 that the claim promises.\<close>

theorem parseCurrencyValue_unparsable_not_zero:
  "parseCurrencyValue (Some (str ''N/A'')) \<noteq> Fin 0"
  using parseCurrencyValue_unparsable by simp

section \<open>Age and rating normalization\<close>

lemma calculateAge_absent:
  "calculateAge rt None = Fin 25"
  "calculateAge rt (Some []) = Fin 25"
  by (simp_all add: calculateAge_def)

text \<open>
  For a date of birth that the engine parses, the age is the difference of the years,
  less one while the birthday of the current year is still ahead, clamped to 16..45.
\<close>

lemma calculateAge_valid:
  assumes "dobStr \<noteq> []" and "Date_new rt dobStr = ValidDate dob"
  shows "calculateAge rt (Some dobStr) =
     Fin (max 16 (min 45 (of_int (fullYear (Date_now rt) - fullYear dob
        - (if month (Date_now rt) < month dob
              \<or> (month (Date_now rt) = month dob
                  \<and> dayOfMonth (Date_now rt) < dayOfMonth dob)
           then 1 else 0)))))"
  using assms by (simp add: calculateAge_def Let_def)

lemma calculateAge_example:
  "calculateAge sample_runtime (Some (str ''2000-06-15'')) = Fin 25"
  by (simp add: calculateAge_def sample_runtime_def str_simps)

text \<open>
  C5 (the code at an unparsable date of birth). The claim has every invalid date of
  birth, non-empty unparsable strings included, yield the default 25. Whatever the
  runtime, once its date parser rejects the text \<^verbatim>\<open>unknown\<close> the function returns
  \<open>NaN\<close> for it: the getters of the Invalid Date return \<open>NaN\<close>, which
  \<^verbatim>\<open>Math.min\<close> and \<^verbatim>\<open>Math.max\<close> pass on, and nothing throws, so the
  \<^verbatim>\<open>catch\<close> that would return 25 is not reached.
\<close>

theorem calculateAge_unparsable:
  "calculateAge (rt\<lparr>Date_new := (Date_new rt)(str ''unknown'' := InvalidDate)\<rparr>)
     (Some (str ''unknown'')) = NaN"
  by (simp add: calculateAge_def str_simps)

text \<open>The same at the sample runtime: the result is not the default 25.\<close>

theorem calculateAge_unparsable_sample:
  "calculateAge sample_runtime (Some (str ''unknown'')) \<noteq> Fin 25"
proof -
  have "sample_runtime\<lparr>Date_new := (Date_new sample_runtime)(str ''unknown'' := InvalidDate)\<rparr>
          = sample_runtime"
    by (simp add: sample_runtime_def fun_eq_iff str_simps)
  then show ?thesis
    using calculateAge_unparsable[of sample_runtime] by simp
qed

lemma parseInt_integral: "parseInt s = NaN \<or> (\<exists>k. parseInt s = Fin (of_int k))"
  unfolding parseInt_def Let_def by (simp only: split: prod.splits if_splits) blast

lemma safeInt_integral: "\<exists>k. safeInt v (Fin (of_int d)) = Fin (of_int k)"
  using parseInt_integral[of "trim (the v)"] by (auto simp add: safeInt_def Let_def)

text \<open>The two ratings of every produced record are integers from 40 to 99.\<close>

lemma rating_clamped:
  "\<exists>k. Math_min (Fin 99) (Math_max (Fin 40) (safeInt v (Fin 75))) = Fin (of_int k)
        \<and> 40 \<le> k \<and> k \<le> 99"
proof -
  obtain k where "safeInt v (Fin (of_int 75)) = Fin (of_int k)"
    using safeInt_integral by blast
  then have "Math_min (Fin 99) (Math_max (Fin 40) (safeInt v (Fin 75)))
               = Fin (of_int (min 99 (max 40 k)))"
    by (simp add: min_def max_def)
  then show ?thesis by (intro exI[of _ "min 99 (max 40 k)"]) simp
qed

lemma parsePlayerFromRow_ratings:
  assumes "parsePlayerFromRow rt row = Some p"
  shows "\<exists>k j. overallRating p = Fin (of_int k) \<and> 40 \<le> k \<and> k \<le> 99
             \<and> potential p = Fin (of_int j) \<and> 40 \<le> j \<and> j \<le> 99"
proof -
  from assms have "overallRating p
       = Math_min (Fin 99) (Math_max (Fin 40) (safeInt (row ''overall_rating'') (Fin 75)))"
    and "potential p
       = Math_min (Fin 99) (Math_max (Fin 40) (safeInt (row ''potential'') (Fin 75)))"
    by (auto simp add: parsePlayerFromRow_def)
  then show ?thesis
    using rating_clamped[of "row ''overall_rating''"] rating_clamped[of "row ''potential''"]
    by auto
qed


lemmas safeInt_defs =
  safeInt_def parseInt_def str_simps trim_def trimStart_def isWhiteSpace_def isDigit_def
  decimalValue_def digitsValue_def

lemma rating_examples:
  "Math_min (Fin 99) (Math_max (Fin 40) (safeInt (Some (str ''5'')) (Fin 75))) = Fin 40"
  "Math_min (Fin 99) (Math_max (Fin 40) (safeInt (Some (str ''150'')) (Fin 75))) = Fin 99"
  "Math_min (Fin 99) (Math_max (Fin 40) (safeInt (Some (str ''n/a'')) (Fin 75))) = Fin 75"
  "Math_min (Fin 99) (Math_max (Fin 40) (safeInt None (Fin 75))) = Fin 75"
  by (simp_all add: safeInt_defs)

text \<open>
  C6 (the code at a row whose date of birth is unparsable). The claim has the age of
  every produced record lie within 16..45. A row whose \<^verbatim>\<open>dob\<close> field is the text
  \<^verbatim>\<open>unknown\<close> is accepted, whatever its other fields, and the record produced has the
  age \<open>NaN\<close>, which is in no range.
\<close>

theorem parsePlayerFromRow_age_unparsable:
  "\<exists>p. parsePlayerFromRow
          (rt\<lparr>Date_new := (Date_new rt)(str ''unknown'' := InvalidDate)\<rparr>)
          (row(''dob'' \<mapsto> str ''unknown'')) = Some p
       \<and> age p = NaN"
  by (simp add: parsePlayerFromRow_def calculateAge_def str_simps)

text \<open>The same at the sample runtime, for a row with a rating and this date of birth.\<close>

theorem parsePlayerFromRow_age_unparsable_sample:
  "\<exists>p. parsePlayerFromRow sample_runtime
          [''overall_rating'' \<mapsto> str ''88'', ''dob'' \<mapsto> str ''unknown''] = Some p
       \<and> age p = NaN \<and> overallRating p = Fin 88"
proof -
  have "sample_runtime\<lparr>Date_new := (Date_new sample_runtime)(str ''unknown'' := InvalidDate)\<rparr>
          = sample_runtime"
    by (simp add: sample_runtime_def fun_eq_iff str_simps)
  then obtain p where p: "parsePlayerFromRow sample_runtime
          [''overall_rating'' \<mapsto> str ''88'', ''dob'' \<mapsto> str ''unknown''] = Some p"
      "age p = NaN"
    using parsePlayerFromRow_age_unparsable[of sample_runtime "[''overall_rating'' \<mapsto> str ''88'']"]
    by auto
  from p(1) have "overallRating p = Fin 88"
    by (auto simp add: parsePlayerFromRow_def safeInt_defs)
  with p show ?thesis by blast
qed

section \<open>Attribute sub-ratings\<close>

text \<open>
  C9. Every record the normalizer produces carries the six attribute sub-ratings
  all equal to zero, whatever the row contains.
\<close>

theorem parsePlayerFromRow_attributes_zero:
  "parsePlayerFromRow rt row = Some p \<Longrightarrow>
     pace (attributes p) = Fin 0 \<and> shooting (attributes p) = Fin 0
     \<and> passing (attributes p) = Fin 0 \<and> dribbling (attributes p) = Fin 0
     \<and> defending (attributes p) = Fin 0 \<and> physical (attributes p) = Fin 0"
  by (auto simp add: parsePlayerFromRow_def)

text \<open>A row that supplies a pace column is accepted and still gets the zero sub-ratings.\<close>

theorem parsePlayerFromRow_attributes_zero_sample:
  "\<exists>p. parsePlayerFromRow sample_runtime [''name'' \<mapsto> str ''Pedri'', ''pace'' \<mapsto> str ''80'']
          = Some p
       \<and> pace (attributes p) = Fin 0 \<and> shooting (attributes p) = Fin 0
       \<and> passing (attributes p) = Fin 0 \<and> dribbling (attributes p) = Fin 0
       \<and> defending (attributes p) = Fin 0 \<and> physical (attributes p) = Fin 0"
proof -
  obtain p where p: "parsePlayerFromRow sample_runtime
      [''name'' \<mapsto> str ''Pedri'', ''pace'' \<mapsto> str ''80''] = Some p"
    by (simp add: parsePlayerFromRow_def)
  from parsePlayerFromRow_attributes_zero[OF p] p show ?thesis by blast
qed

section \<open>The query\<close>

lemma like_percent: "like (37 # ps) t \<longleftrightarrow> (\<exists>u v. t = u @ v \<and> like ps v)"
proof (induction t)
  case Nil
  show ?case by simp
next
  case (Cons c cs)
  show ?case
  proof
    assume "like (37 # ps) (c # cs)"
    then consider "like ps (c # cs)" | "like (37 # ps) cs" by auto
    then show "\<exists>u v. c # cs = u @ v \<and> like ps v"
    proof cases
      case 1
      then show ?thesis by (intro exI[of _ "[]"] exI[of _ "c # cs"]) simp
    next
      case 2
      then obtain u v where "cs = u @ v" "like ps v" using Cons.IH by blast
      then show ?thesis by (intro exI[of _ "c # u"] exI[of _ v]) simp
    qed
  next
    assume "\<exists>u v. c # cs = u @ v \<and> like ps v"
    then obtain u v where uv: "c # cs = u @ v" "like ps v" by blast
    show "like (37 # ps) (c # cs)"
    proof (cases u)
      case Nil
      with uv have "like ps (c # cs)" by simp
      then show ?thesis by simp
    next
      case (Cons a u')
      with uv have "cs = u' @ v" by simp
      with uv(2) Cons.IH show ?thesis by auto
    qed
  qed
qed

lemma like_literal:
  "wildcard_free s \<Longrightarrow>
     like (s @ ps) t \<longleftrightarrow>
       (\<exists>w v. t = w @ v \<and> map sqlite3Tolower w = map sqlite3Tolower s \<and> like ps v)"
proof (induction s arbitrary: t)
  case Nil
  show ?case by simp
next
  case (Cons a s)
  then have a: "a \<noteq> 37" "a \<noteq> 95" and s: "wildcard_free s"
    by (auto simp add: wildcard_free_def)
  show ?case
  proof (cases t)
    case Nil
    with a show ?thesis by simp
  next
    case (Cons c cs)
    have "like ((a # s) @ ps) (c # cs)
            \<longleftrightarrow> sqlite3Tolower a = sqlite3Tolower c \<and> like (s @ ps) cs"
      using a by simp
    also have "\<dots> \<longleftrightarrow> sqlite3Tolower a = sqlite3Tolower c
         \<and> (\<exists>w v. cs = w @ v \<and> map sqlite3Tolower w = map sqlite3Tolower s \<and> like ps v)"
      using Cons.IH[OF s] by simp
    also have "\<dots> \<longleftrightarrow> (\<exists>w v. c # cs = w @ v
         \<and> map sqlite3Tolower w = map sqlite3Tolower (a # s) \<and> like ps v)"
      (is "?L \<longleftrightarrow> ?R")
    proof
      assume ?L
      then obtain w v where "sqlite3Tolower a = sqlite3Tolower c" "cs = w @ v"
        "map sqlite3Tolower w = map sqlite3Tolower s" "like ps v" by blast
      then show ?R by (intro exI[of _ "c # w"] exI[of _ v]) simp
    next
      assume ?R
      then obtain w v where wv: "c # cs = w @ v"
        "map sqlite3Tolower w = map sqlite3Tolower (a # s)" "like ps v" by blast
      then obtain w' where "w = c # w'" by (cases w) auto
      with wv show ?L by auto
    qed
    finally show ?thesis using Cons by simp
  qed
qed

text \<open>
  For a string \<open>s\<close> without wildcards, the pattern \<^verbatim>\<open>%s%\<close> matches the texts that
  contain \<open>s\<close> up to the case of ASCII letters.
\<close>

lemma like_contains:
  assumes "wildcard_free s"
  shows "like (37 # s @ [37]) t \<longleftrightarrow> contains_ci s t"
proof -
  have all: "like [37] v" for v by (induction v) simp_all
  have "like (37 # s @ [37]) t
          \<longleftrightarrow> (\<exists>u w v. t = u @ w @ v \<and> map sqlite3Tolower w = map sqlite3Tolower s)"
    using like_literal[OF assms, of "[37]"] all by (simp add: like_percent) blast
  also have "\<dots> \<longleftrightarrow> contains_ci s t"
    unfolding contains_ci_def sublist_def
    by (auto simp add: map_eq_append_conv append_eq_map_conv) metis+
  finally show ?thesis .
qed






lemma order_by_filter: "filter P (order_by rows) = order_by (filter P rows)"
  by (simp add: order_by_def filter_sort)

text \<open>A criterion that adds one condition to the query filters its result.\<close>

lemma select_rows_split:
  assumes "\<And>r. list_all (\<lambda>k. holds k r) (where_clause c)
                 \<longleftrightarrow> list_all (\<lambda>k. holds k r) (where_clause c') \<and> P r"
  shows "select_rows c db = filter P (select_rows c' db)"
proof -
  have "(\<lambda>r. list_all (\<lambda>k. holds k r) (where_clause c))
          = (\<lambda>r. list_all (\<lambda>k. holds k r) (where_clause c') \<and> P r)"
    using assms by auto
  then show ?thesis by (simp add: select_rows_def order_by_filter)
qed


lemmas sample_defs =
  R1_def R2_def R3_def no_criteria_def no_attributes_def str_simps

lemmas search_defs =
  searchPlayers_def select_rows_def where_clause_def string_param_def order_by_def
  sql_limit_def sqlite3Tolower_def

section \<open>Search\<close>




text \<open>The conjunction example: rating at least 85 gives R1; with age at most 18 as well, nothing.\<close>

lemma searchPlayers_conjunction_example:
  "searchPlayers (no_criteria\<lparr>minOverall := Some (Fin 85)\<rparr>) 50 [R1, R2] = [rowToPlayer R1]"
  "searchPlayers (no_criteria\<lparr>minOverall := Some (Fin 85), maxAge := Some (Fin 18)\<rparr>) 50 [R1, R2]
     = []"
  by (simp_all add: search_defs sample_defs)

text \<open>A negative cap is no cap: every matching record is returned.\<close>

lemma searchPlayers_negative_limit:
  "limit < 0 \<Longrightarrow> searchPlayers c limit db = map rowToPlayer (select_rows c db)"
  by (simp add: searchPlayers_def sql_limit_def)

text \<open>
  C10. A numeric criterion equal to zero changes nothing: the search returns what it
  returns with that criterion absent.
\<close>

theorem searchPlayers_zero_criterion:
  "searchPlayers (c\<lparr>minOverall := Some (Fin 0)\<rparr>) limit db
     = searchPlayers (c\<lparr>minOverall := None\<rparr>) limit db
   \<and> searchPlayers (c\<lparr>maxAge := Some (Fin 0)\<rparr>) limit db
     = searchPlayers (c\<lparr>maxAge := None\<rparr>) limit db
   \<and> searchPlayers (c\<lparr>maxPrice := Some (Fin 0)\<rparr>) limit db
     = searchPlayers (c\<lparr>maxPrice := None\<rparr>) limit db
   \<and> searchPlayers (c\<lparr>minPotential := Some (Fin 0)\<rparr>) limit db
     = searchPlayers (c\<lparr>minPotential := None\<rparr>) limit db"
  by (simp add: searchPlayers_def select_rows_def where_clause_def)

text \<open>
  With \<^verbatim>\<open>maxAge = 0\<close> or \<^verbatim>\<open>maxPrice = 0\<close> both sample records are returned, although
  neither has age 0 or market value 0.
\<close>

theorem searchPlayers_zero_criterion_sample:
  "searchPlayers (no_criteria\<lparr>maxAge := Some (Fin 0)\<rparr>) 50 [R1, R2]
     = searchPlayers (no_criteria\<lparr>maxAge := None\<rparr>) 50 [R1, R2]
   \<and> searchPlayers (no_criteria\<lparr>maxPrice := Some (Fin 0)\<rparr>) 50 [R1, R2]
     = searchPlayers (no_criteria\<lparr>maxPrice := None\<rparr>) 50 [R1, R2]
   \<and> searchPlayers (no_criteria\<lparr>maxPrice := Some (Fin 0)\<rparr>) 50 [R1, R2]
     = [rowToPlayer R1, rowToPlayer R2]"
proof -
  have "searchPlayers (no_criteria\<lparr>maxPrice := None\<rparr>) 50 [R1, R2]
          = [rowToPlayer R1, rowToPlayer R2]"
    by (simp add: search_defs sample_defs)
  then show ?thesis
    using searchPlayers_zero_criterion[of no_criteria 50 "[R1, R2]"] by simp
qed

section \<open>Substring criteria\<close>

lemma select_rows_nationality:
  assumes "s \<noteq> []"
  shows "select_rows (c\<lparr>nationality := Some s\<rparr>) db
     = filter (\<lambda>r. like (37 # s @ [37]) (row_nationality r))
         (select_rows (c\<lparr>nationality := None\<rparr>) db)"
  using assms
  by (intro select_rows_split) (auto simp add: where_clause_def string_param_def)

lemma select_rows_league:
  assumes "s \<noteq> []"
  shows "select_rows (c\<lparr>league := Some s\<rparr>) db
     = filter (\<lambda>r. case row_league r of None \<Rightarrow> False | Some t \<Rightarrow> like (37 # s @ [37]) t)
         (select_rows (c\<lparr>league := None\<rparr>) db)"
  using assms
  by (intro select_rows_split) (auto simp add: where_clause_def string_param_def)

lemma select_rows_club:
  assumes "s \<noteq> []"
  shows "select_rows (c\<lparr>club := Some s\<rparr>) db
     = filter (\<lambda>r. case row_club r of None \<Rightarrow> False | Some t \<Rightarrow> like (37 # s @ [37]) t)
         (select_rows (c\<lparr>club := None\<rparr>) db)"
  using assms
  by (intro select_rows_split) (auto simp add: where_clause_def string_param_def)

text \<open>
  C7, as amended. A nationality, league or club criterion \<open>s\<close> that is not empty and has
  neither \<^verbatim>\<open>%\<close> nor \<^verbatim>\<open>_\<close> in it keeps, of the records the other criteria select,
  those whose field contains \<open>s\<close> somewhere, the case of ASCII letters being ignored;
  a record without a club or league is dropped by a club or league criterion. The ranking
  and the cap are as without the criterion.
\<close>

theorem searchPlayers_contains_ignoring_case:
  assumes "s \<noteq> []" and "wildcard_free s"
  shows "searchPlayers (c\<lparr>nationality := Some s\<rparr>) limit db
           = map rowToPlayer (sql_limit limit
               (filter (\<lambda>r. contains_ci s (row_nationality r))
                  (select_rows (c\<lparr>nationality := None\<rparr>) db)))
       \<and> searchPlayers (c\<lparr>league := Some s\<rparr>) limit db
           = map rowToPlayer (sql_limit limit
               (filter (\<lambda>r. field_contains_ci s (row_league r))
                  (select_rows (c\<lparr>league := None\<rparr>) db)))
       \<and> searchPlayers (c\<lparr>club := Some s\<rparr>) limit db
           = map rowToPlayer (sql_limit limit
               (filter (\<lambda>r. field_contains_ci s (row_club r))
                  (select_rows (c\<lparr>club := None\<rparr>) db)))"
proof -
  have "(case field of None \<Rightarrow> False | Some t \<Rightarrow> like (37 # s @ [37]) t)
          = field_contains_ci s field" for field
    using assms(2) by (simp add: field_contains_ci_def like_contains split: option.splits)
  then show ?thesis
    using assms
    by (simp add: searchPlayers_def select_rows_nationality select_rows_league
        select_rows_club like_contains)
qed

text \<open>
  The criterion \<^verbatim>\<open>LIGA\<close> for the league selects R1, whose league is \<^verbatim>\<open>La Liga\<close>, and
  drops R2, which has no league.
\<close>

theorem searchPlayers_contains_ignoring_case_sample:
  "str ''LIGA'' \<noteq> [] \<and> wildcard_free (str ''LIGA'')
   \<and> searchPlayers (no_criteria\<lparr>league := Some (str ''LIGA'')\<rparr>) 50 [R1, R2]
       = map rowToPlayer (sql_limit 50
           (filter (\<lambda>r. field_contains_ci (str ''LIGA'') (row_league r))
              (select_rows (no_criteria\<lparr>league := None\<rparr>) [R1, R2])))
   \<and> searchPlayers (no_criteria\<lparr>league := Some (str ''LIGA'')\<rparr>) 50 [R1, R2]
       = [rowToPlayer R1]"
proof -
  have s: "str ''LIGA'' \<noteq> []" "wildcard_free (str ''LIGA'')"
    by (simp_all add: str_simps wildcard_free_def)
  have "searchPlayers (no_criteria\<lparr>league := Some (str ''LIGA'')\<rparr>) 50 [R1, R2]
          = [rowToPlayer R1]"
    by (simp add: search_defs sample_defs)
  then show ?thesis
    using s searchPlayers_contains_ignoring_case[OF s, of no_criteria 50 "[R1, R2]"] by simp
qed

text \<open>
  The claim as stated fails: the nationality criterion \<^verbatim>\<open>spain\<close> returns R1, whose
  nationality \<^verbatim>\<open>Spain\<close> does not contain the string \<^verbatim>\<open>spain\<close>.
\<close>

theorem searchPlayers_case_sensitive_counterexample:
  "searchPlayers (no_criteria\<lparr>nationality := Some (str ''spain'')\<rparr>) 50 [R1, R2]
     = [rowToPlayer R1]
   \<and> \<not> sublist (str ''spain'') (row_nationality R1)"
proof
  show "searchPlayers (no_criteria\<lparr>nationality := Some (str ''spain'')\<rparr>) 50 [R1, R2]
          = [rowToPlayer R1]"
    by (simp add: search_defs sample_defs)
  show "\<not> sublist (str ''spain'') (row_nationality R1)"
    by (simp add: sample_defs sublist_Cons_right)
qed

text \<open>A wildcard in the criterion is a wildcard of the query: \<^verbatim>\<open>S_ain\<close> finds \<^verbatim>\<open>Spain\<close>.\<close>

lemma searchPlayers_wildcard_example:
  "searchPlayers (no_criteria\<lparr>nationality := Some (str ''S_ain'')\<rparr>) 50 [R1, R2]
     = [rowToPlayer R1]"
  by (simp add: search_defs sample_defs)

section \<open>A negative price\<close>

lemma select_rows_maxPrice:
  assumes "p \<noteq> 0"
  shows "select_rows (c\<lparr>maxPrice := Some (Fin p)\<rparr>) db
     = filter (\<lambda>r. row_market_value r \<le> p) (select_rows (c\<lparr>maxPrice := None\<rparr>) db)"
  using assms
  by (intro select_rows_split) (auto simp add: where_clause_def)

text \<open>
  C8, as amended. A negative \<^verbatim>\<open>maxPrice\<close> is a constraint like any other price: of
  the records the other criteria select, the search keeps those whose market value is at
  most that price, ranked and capped as without the criterion. So it returns nothing when
  no stored market value is negative. (It raises no error.)
\<close>

theorem searchPlayers_negative_maxPrice:
  assumes "p < 0"
  shows "searchPlayers (c\<lparr>maxPrice := Some (Fin p)\<rparr>) limit db
           = map rowToPlayer (sql_limit limit
               (filter (\<lambda>r. row_market_value r \<le> p)
                  (select_rows (c\<lparr>maxPrice := None\<rparr>) db)))
       \<and> (list_all (\<lambda>r. 0 \<le> row_market_value r) db
            \<longrightarrow> searchPlayers (c\<lparr>maxPrice := Some (Fin p)\<rparr>) limit db = [])"
proof -
  have 1: "select_rows (c\<lparr>maxPrice := Some (Fin p)\<rparr>) db
     = filter (\<lambda>r. row_market_value r \<le> p) (select_rows (c\<lparr>maxPrice := None\<rparr>) db)"
    using assms by (simp add: select_rows_maxPrice)
  have "filter (\<lambda>r. row_market_value r \<le> p) (select_rows (c\<lparr>maxPrice := None\<rparr>) db) = []"
    if "list_all (\<lambda>r. 0 \<le> row_market_value r) db"
    using that assms
    by (auto simp add: filter_empty_conv select_rows_def order_by_def list_all_iff)
  with 1 show ?thesis by (simp add: searchPlayers_def sql_limit_def)
qed

theorem searchPlayers_negative_maxPrice_sample:
  "(- 1 :: rat) < 0 \<and> list_all (\<lambda>r. 0 \<le> row_market_value r) [R1, R2]
   \<and> searchPlayers (no_criteria\<lparr>maxPrice := Some (Fin (- 1))\<rparr>) 50 [R1, R2] = []"
proof -
  have neg: "(- 1 :: rat) < 0" by simp
  have nonneg: "list_all (\<lambda>r. 0 \<le> row_market_value r) [R1, R2]"
    by (simp add: sample_defs)
  from searchPlayers_negative_maxPrice[OF neg, of no_criteria 50 "[R1, R2]"]
  have "list_all (\<lambda>r. 0 \<le> row_market_value r) [R1, R2]
          \<longrightarrow> searchPlayers (no_criteria\<lparr>maxPrice := Some (Fin (- 1))\<rparr>) 50 [R1, R2] = []"
    by (rule conjunct2)
  with neg nonneg show ?thesis by blast
qed

text \<open>
  The claim as stated fails: with \<^verbatim>\<open>maxPrice = -1\<close> the search returns nothing, without
  the criterion it returns both sample records.
\<close>

theorem searchPlayers_negative_maxPrice_counterexample:
  "searchPlayers (no_criteria\<lparr>maxPrice := Some (Fin (- 1))\<rparr>) 50 [R1, R2] = []
   \<and> searchPlayers (no_criteria\<lparr>maxPrice := None\<rparr>) 50 [R1, R2]
       = [rowToPlayer R1, rowToPlayer R2]"
  by (simp add: search_defs sample_defs)

section \<open>Upsert\<close>


lemma ior_commute:
  "row_id r \<noteq> row_id r' \<Longrightarrow>
   insert_or_replace r (insert_or_replace r' db)
     = insert_or_replace r' (insert_or_replace r db)"
  by (induction db) auto



















section \<open>Loading a dataset twice\<close>















lemmas load_defs =
  handleUpdate_def loadPlayersFromCSV_def parsePlayerFromRow_def parseCurrencyValue_def
  parseFloat_def pow10_def safeInt_defs calculateAge_def parsePosition_def parseDate_def
  string_or_def sample_runtime_def row_with_id_def row_without_id_def row_unknown_dob_def
  addPlayers_def addPlayer_def assign_rowid_def bind_row_def




text \<open>
  A record that the table rejects leaves no row: a raw row with the identifier 9 and a
  date of birth that the parser rejects is normalized to a record of age \<open>NaN\<close>,
  which is bound as \<open>NULL\<close> to a \<^verbatim>\<open>NOT NULL\<close> column.
\<close>

lemma handleUpdate_rejected:
  "handleUpdate (\<lambda>i. sample_runtime) [row_unknown_dob] [] = []"
  by (simp add: load_defs)

text \<open>An identifier outside the 64-bit range is refused.\<close>

lemma addPlayer_id_out_of_range:
  "addPlayer ((rowToPlayer R1)\<lparr>ident := Fin (10 ^ 20)\<rparr>) db = (False, db)"
proof -
  have "\<lfloor>(10 :: rat) ^ 20\<rfloor> = 10 ^ 20"
    by (metis floor_of_int of_int_numeral of_int_power)
  then show ?thesis by (simp add: addPlayer_def assign_rowid_def rowToPlayer_def)
qed

text \<open>
  A record without an identifier (\<open>NaN\<close>, bound as \<open>NULL\<close>) is given a fresh one at
  every upsert. The normalizer produces no such record.
\<close>

lemma addPlayer_without_id:
  "map row_id (snd (addPlayer ((rowToPlayer R1)\<lparr>ident := NaN\<rparr>)
                 (snd (addPlayer ((rowToPlayer R1)\<lparr>ident := NaN\<rparr>) [])))) = [1, 2]"
  by (simp add: addPlayer_def assign_rowid_def bind_row_def rowToPlayer_def R1_def)

end
